theory Spec2Isabelle
  imports
    Complex_Main
    "HOL-Library.Sublist"
    "HOL-Library.Char_ord"
    "HOL-Library.List_Lexorder"
    "HOL-Library.Product_Lexorder"
begin

section \<open>Data model\<close>

text \<open>
  The dashboard script \<^verbatim>\<open>app.py\<close> reads six columns of the loaded table:
  \<^verbatim>\<open>location\<close>, \<^verbatim>\<open>rest_type\<close>, \<^verbatim>\<open>online_order\<close>, \<^verbatim>\<open>book_table\<close>
  (text columns, dtype \<^verbatim>\<open>object\<close>) and \<^verbatim>\<open>rate\<close>, \<^verbatim>\<open>cost\<close> (numeric columns, on
  which the script calls \<^verbatim>\<open>.mean()\<close>). A row of the table is a record with these
  fields, and a data frame is the list of its rows in index order. The table is the
  cleaned one: every cell is present. Floating-point cells are idealised as exact
  rationals and the arithmetic on them is exact: rounding and overflow of the 64-bit
  floats are not modelled, and NaN is the value \<open>None\<close>.
\<close>

record restaurant =
  location :: string
  rest_type :: string
  online_order :: string
  book_table :: string
  rate :: rat
  cost :: rat

type_synonym dataframe = "restaurant list"

section \<open>The pandas operations the script calls\<close>

text \<open>
  \<^verbatim>\<open>Series.unique()\<close>: the distinct values, in order of first appearance.
\<close>

primrec unique :: "'a list \<Rightarrow> 'a list" where
  "unique [] = []"
| "unique (x # xs) = x # removeAll x (unique xs)"

text \<open>
  \<^verbatim>\<open>Series.isin(values)\<close>: the boolean mask, one entry per row.
  \<^verbatim>\<open>df[mask]\<close>: the rows whose mask entry is true, in index order.
\<close>

definition isin :: "'a list \<Rightarrow> 'a list \<Rightarrow> bool list" where
  "isin col vals = map (\<lambda>v. v \<in> set vals) col"

definition bool_index :: "'r list \<Rightarrow> bool list \<Rightarrow> 'r list" where
  "bool_index df msk = map fst (filter snd (zip df msk))"

text \<open>
  \<^verbatim>\<open>Series.value_counts()\<close>: one entry per distinct value with the number of rows
  holding it. The hash table yields the values in order of first appearance; the entries
  are then put in descending order of count by \<^verbatim>\<open>sort_values(ascending=False)\<close>, which
  computes an indexer into the counts and takes the entries along it. The sort is the
  default \<^verbatim>\<open>quicksort\<close>, which is not stable: the order among entries of equal count is
  not fixed by the data. The indexer is therefore a parameter \<open>order\<close>, from the list of
  counts to the list of positions; \<open>sorts_descending\<close> is all that is known of it on a
  given list of counts: it lists every position once (put in increasing order, the
  positions are all of them), by descending count.
\<close>

definition sorts_descending :: "(nat list \<Rightarrow> nat list) \<Rightarrow> nat list \<Rightarrow> bool" where
  "sorts_descending order counts =
     (sort (order counts) = [0..<length counts]
      \<and> sorted_wrt (\<lambda>i j. counts ! j \<le> counts ! i) (order counts))"

definition value_counts :: "(nat list \<Rightarrow> nat list) \<Rightarrow> 'a list \<Rightarrow> ('a \<times> nat) list" where
  "value_counts order col =
     (let keys = unique col;
          counts = map (count_list col) keys
      in map (\<lambda>i. (keys ! i, counts ! i)) (order counts))"

text \<open>\<^verbatim>\<open>.head(n)\<close>: the first \<open>n\<close> entries (all of them when there are fewer).\<close>

definition head :: "nat \<Rightarrow> 'a list \<Rightarrow> 'a list" where
  "head n xs = take n xs"

text \<open>
  \<^verbatim>\<open>Series.mean()\<close>: the arithmetic mean; of no values it is NaN, here \<open>None\<close>.
\<close>

definition mean :: "rat list \<Rightarrow> rat option" where
  "mean xs = (if xs = [] then None else Some (sum_list xs / of_nat (length xs)))"

text \<open>
  \<^verbatim>\<open>df.groupby(['location', 'rest_type'])['cost'].mean().reset_index()\<close>: one row per
  key pair that occurs in the frame, in sorted key order, with the mean cost of the rows
  of that group.
\<close>

definition group_rows :: "dataframe \<Rightarrow> string \<times> string \<Rightarrow> dataframe" where
  "group_rows df k = filter (\<lambda>r. (location r, rest_type r) = k) df"

definition groupby_mean :: "dataframe \<Rightarrow> (string \<times> string \<times> rat option) list" where
  "groupby_mean df =
     map (\<lambda>k. (fst k, snd k, mean (map cost (group_rows df k))))
       (sort (unique (map (\<lambda>r. (location r, rest_type r)) df)))"

section \<open>Data loader\<close>

text \<open>
  \<^verbatim>\<open>load_data\<close> (lines 43-54) works on the raw table, whatever its columns: a raw frame
  is the list of its labelled columns. The two readers are the file system's answer to
  \<^verbatim>\<open>pd.read_parquet\<close> and \<^verbatim>\<open>pd.read_csv\<close>: an exception (\<open>Inl\<close>) or a frame.
  The bare \<^verbatim>\<open>except:\<close> catches every exception of the first read; an exception of
  the second read is not caught.
\<close>

type_synonym 'c frame = "(string \<times> 'c) list"

record ('e, 'c) files =
  read_parquet :: "string \<Rightarrow> 'e + 'c frame"
  read_csv :: "string \<Rightarrow> 'e + 'c frame"

definition columns :: "'c frame \<Rightarrow> string list" where
  "columns df = map fst df"

definition drop_columns :: "string list \<Rightarrow> 'c frame \<Rightarrow> 'c frame" where
  "drop_columns names df = filter (\<lambda>c. fst c \<notin> set names) df"

definition load_data :: "('e, 'c) files \<Rightarrow> 'e + 'c frame" where
  "load_data fs =
     (case (case read_parquet fs ''cleaned_df.parquet'' of
              Inr df \<Rightarrow> Inr df
            | Inl _ \<Rightarrow> read_csv fs ''cleaned_df.csv'') of
        Inl e \<Rightarrow> Inl e
      | Inr df \<Rightarrow>
          Inr (if ''Unnamed: 0'' \<in> set (columns df)
               then drop_columns [''Unnamed: 0''] df else df))"

section \<open>Filter stage\<close>

text \<open>
  Lines 71-74: the selection returned by the multiselect is a list; an empty list is
  falsy, and then the frame is copied whole.
\<close>

definition df_filtered :: "dataframe \<Rightarrow> string list \<Rightarrow> dataframe" where
  "df_filtered df selected_location =
     (if selected_location \<noteq> []
      then bool_index df (isin (map location df) selected_location)
      else df)"

text \<open>
  Lines 69: the options of the location multiselect are the distinct locations of the
  dataset, its default the first five of them. The selection the widget returns is an
  input of the pass: a list of options.
\<close>

definition location_options :: "dataframe \<Rightarrow> string list" where
  "location_options df = unique (map location df)"

definition default_selection :: "dataframe \<Rightarrow> string list" where
  "default_selection df = take 5 (unique (map location df))"

section \<open>Aggregation stage\<close>

text \<open>
  Lines 144-145: \<^verbatim>\<open>value_counts().head(10).reset_index()\<close> with the columns named
  \<^verbatim>\<open>location\<close> and \<^verbatim>\<open>count\<close>: a table of (location, count) rows.
\<close>

definition top_loc :: "(nat list \<Rightarrow> nat list) \<Rightarrow> dataframe \<Rightarrow> (string \<times> nat) list" where
  "top_loc order df = head 10 (value_counts order (map location df))"

text \<open>The counts handed to the sort for the location column of a frame.\<close>

definition location_counts :: "dataframe \<Rightarrow> nat list" where
  "location_counts df = map (count_list (map location df)) (unique (map location df))"


text \<open>
  Lines 176-179: the group means of the filtered view, then the rows whose location is in
  the index of the ten first entries of the location counts.
\<close>

definition top_locations_list :: "(nat list \<Rightarrow> nat list) \<Rightarrow> dataframe \<Rightarrow> string list" where
  "top_locations_list order df = map fst (head 10 (value_counts order (map location df)))"

definition treemap_df ::
  "(nat list \<Rightarrow> nat list) \<Rightarrow> dataframe \<Rightarrow> (string \<times> string \<times> rat option) list" where
  "treemap_df order df =
     (let g = groupby_mean df
      in bool_index g (isin (map fst g) (top_locations_list order df)))"

text \<open>
  Lines 167-168: the numeric columns of the view, handed to \<^verbatim>\<open>corr()\<close>.
\<close>

definition numeric_df :: "dataframe \<Rightarrow> (string \<times> rat list) list" where
  "numeric_df df = [(''rate'', map rate df), (''cost'', map cost df)]"

text \<open>
  Modelled from the spec: \<^verbatim>\<open>DataFrame.corr()\<close> is a routine of the pandas library, not
  of this repository. It is modelled as the spec describes it: the matrix of pairwise
  Pearson correlation coefficients of the columns, over exact numbers, a cell being NaN
  (\<open>None\<close>) where the coefficient is undefined because a column of the pair has no
  spread. The coefficient is the sum of products of deviations from the means, divided by
  the root of the product of the two sums of squared deviations, when that root is not
  zero.
\<close>

definition sum_dev_prod :: "rat list \<Rightarrow> rat list \<Rightarrow> rat" where
  "sum_dev_prod xs ys =
     (let mx = sum_list xs / of_nat (length xs);
          my = sum_list ys / of_nat (length ys)
      in sum_list (map (\<lambda>(x, y). (x - mx) * (y - my)) (zip xs ys)))"

definition pearson :: "rat list \<Rightarrow> rat list \<Rightarrow> real option" where
  "pearson xs ys =
     (let d = sqrt (of_rat (sum_dev_prod xs xs * sum_dev_prod ys ys))
      in if d = 0 then None else Some (of_rat (sum_dev_prod xs ys) / d))"

definition corr :: "(string \<times> rat list) list \<Rightarrow> real option list list" where
  "corr ndf = map (\<lambda>ci. map (\<lambda>cj. pearson (snd ci) (snd cj)) ndf) ndf"

text \<open>
  \<^verbatim>\<open>Series.var()\<close>: the sample variance, NaN for fewer than two values.
\<close>

definition variance :: "rat list \<Rightarrow> rat option" where
  "variance xs =
     (if length xs < 2 then None
      else Some (sum_dev_prod xs xs / of_nat (length xs - 1)))"

text \<open>
  Lines 109-126: the column chosen in the select box, as a series: its dtype and its
  cells. The chart and the statistics shown for it are chosen by two tests.
\<close>

datatype column = Rate | Cost | Online_order | Book_table | Rest_type

datatype dtype = Object | Float64 | Int64

datatype cell = Str string | Num rat

record series =
  dtype :: dtype
  cells :: "cell list"

fun get_column :: "column \<Rightarrow> dataframe \<Rightarrow> series" where
  "get_column Rate df = \<lparr>dtype = Float64, cells = map (\<lambda>r. Num (rate r)) df\<rparr>"
| "get_column Cost df = \<lparr>dtype = Float64, cells = map (\<lambda>r. Num (cost r)) df\<rparr>"
| "get_column Online_order df = \<lparr>dtype = Object, cells = map (\<lambda>r. Str (online_order r)) df\<rparr>"
| "get_column Book_table df = \<lparr>dtype = Object, cells = map (\<lambda>r. Str (book_table r)) df\<rparr>"
| "get_column Rest_type df = \<lparr>dtype = Object, cells = map (\<lambda>r. Str (rest_type r)) df\<rparr>"

datatype chart_kind = Pie | Histogram

datatype stats_kind = Describe | Value_counts

definition chart_choice :: "series \<Rightarrow> chart_kind" where
  "chart_choice s =
     (if dtype s = Object \<or> length (unique (cells s)) < 20 then Pie else Histogram)"

definition stats_choice :: "series \<Rightarrow> stats_kind" where
  "stats_choice s = (if dtype s \<noteq> Object then Describe else Value_counts)"

section \<open>The render pass\<close>

text \<open>
  One pass of the script after the load (lines 68-185): its inputs are the loaded frame,
  the page of the navigation radio, the selection of the location multiselect and the
  column of the select box; its result is the list of data-bearing elements it puts on
  the page, and whether \<^verbatim>\<open>st.stop()\<close> ended the pass. Static decoration (images,
  headings, glyphs in labels) is left out. What a chart call or \<^verbatim>\<open>describe()\<close> derives
  from its data is not computed: the element carries the data handed to the call. The
  indexer of the library's sort is a further input of the pass.
\<close>

datatype page = Home | Univariate_Analysis | Bivariate_Analysis | Multivariate_Analysis

datatype kpi = Count nat | Average "rat option"

datatype element =
    St_error string
  | St_warning string
  | St_metric string kpi
  | St_dataframe dataframe
  | Px_pie column dataframe
  | Px_histogram column dataframe
  | Write_describe series
  | Write_value_counts "(cell \<times> nat) list"
  | Px_scatter dataframe
  | Px_bar "(string \<times> nat) list"
  | Px_box dataframe
  | Px_imshow_corr "real option list list"
  | Px_treemap "(string \<times> string \<times> rat option) list"

datatype outcome = Stopped "element list" | Rendered "element list"

definition home_page :: "dataframe \<Rightarrow> element list" where
  "home_page df =
     [St_metric ''Total Restaurants'' (Count (length df)),
      St_metric ''Avg Rating'' (Average (mean (map rate df))),
      St_metric ''Avg Cost (2 People)'' (Average (mean (map cost df))),
      St_metric ''Online Delivery''
        (Count (length (filter (\<lambda>r. online_order r = ''Yes'') df))),
      St_dataframe (head 100 df)]"

definition univariate_page ::
  "(nat list \<Rightarrow> nat list) \<Rightarrow> column \<Rightarrow> dataframe \<Rightarrow> element list" where
  "univariate_page order col_to_plot df =
     [case chart_choice (get_column col_to_plot df) of
        Pie \<Rightarrow> Px_pie col_to_plot df
      | Histogram \<Rightarrow> Px_histogram col_to_plot df,
      case stats_choice (get_column col_to_plot df) of
        Describe \<Rightarrow> Write_describe (get_column col_to_plot df)
      | Value_counts \<Rightarrow> Write_value_counts (value_counts order (cells (get_column col_to_plot df)))]"

definition bivariate_page :: "(nat list \<Rightarrow> nat list) \<Rightarrow> dataframe \<Rightarrow> element list" where
  "bivariate_page order df = [Px_scatter df, Px_bar (top_loc order df), Px_box df]"

definition treemap_stage :: "(nat list \<Rightarrow> nat list) \<Rightarrow> dataframe \<Rightarrow> element" where
  "treemap_stage order df =
     (if df \<noteq> [] then Px_treemap (treemap_df order df)
      else St_warning ''Please select at least one location from the sidebar.'')"

definition multivariate_page :: "(nat list \<Rightarrow> nat list) \<Rightarrow> dataframe \<Rightarrow> element list" where
  "multivariate_page order df = [Px_imshow_corr (corr (numeric_df df)), treemap_stage order df]"

fun page_body ::
  "(nat list \<Rightarrow> nat list) \<Rightarrow> page \<Rightarrow> column \<Rightarrow> dataframe \<Rightarrow> element list" where
  "page_body order Home col_to_plot df = home_page df"
| "page_body order Univariate_Analysis col_to_plot df = univariate_page order col_to_plot df"
| "page_body order Bivariate_Analysis col_to_plot df = bivariate_page order df"
| "page_body order Multivariate_Analysis col_to_plot df = multivariate_page order df"

definition script ::
  "(nat list \<Rightarrow> nat list) \<Rightarrow> page \<Rightarrow> string list \<Rightarrow> column \<Rightarrow> dataframe \<Rightarrow> outcome" where
  "script order page selected_location col_to_plot df =
     (if df \<noteq> []
      then Rendered (page_body order page col_to_plot (df_filtered df selected_location))
      else Stopped [St_error ''Data could not be loaded. Please check the file.''])"

section \<open>Example data\<close>

text \<open>
  Small frames on which the results below are evaluated: three rows with locations
  A, A, B and ratings 4, 3, 5; and five rows with locations A, B, B, A, C, where A and B
  tie on their count; and twenty-one rows over eleven locations, ten of them with two
  rows and the last with one. Two indexers the sort may return: one that keeps entries of
  equal count in their order, one that reverses them.
\<close>

definition example_row :: "string \<Rightarrow> string \<Rightarrow> rat \<Rightarrow> rat \<Rightarrow> restaurant" where
  "example_row l t r c =
     \<lparr>location = l, rest_type = t, online_order = ''Yes'', book_table = ''No'',
      rate = r, cost = c\<rparr>"

definition scenario_df :: dataframe where
  "scenario_df =
     [example_row ''A'' ''Cafe'' 4 300, example_row ''A'' ''Bar'' 3 500,
      example_row ''B'' ''Cafe'' 5 700]"


definition eleven_df :: dataframe where
  "eleven_df =
     map (\<lambda>l. example_row l ''Cafe'' 4 300)
       [''a'', ''b'', ''c'', ''d'', ''e'', ''f'', ''g'', ''h'', ''i'', ''j'',
        ''a'', ''b'', ''c'', ''d'', ''e'', ''f'', ''g'', ''h'', ''i'', ''j'', ''k'']"

definition stable_order :: "nat list \<Rightarrow> nat list" where
  "stable_order counts = sort_key (\<lambda>i. - int (counts ! i)) [0..<length counts]"


definition example_frame :: "nat list frame" where
  "example_frame = [(''Unnamed: 0'', [0, 1]), (''location'', [7, 8]), (''cost'', [300, 500])]"

definition parquet_missing :: "(string, nat list) files" where
  "parquet_missing =
     \<lparr>read_parquet = (\<lambda>path. Inl ''FileNotFoundError''),
      read_csv = (\<lambda>path. Inr example_frame)\<rparr>"

definition both_missing :: "(string, nat list) files" where
  "both_missing =
     \<lparr>read_parquet = (\<lambda>path. Inl ''ArrowInvalid''),
      read_csv = (\<lambda>path. Inl ''FileNotFoundError'')\<rparr>"

definition parquet_present :: "(string, nat list) files" where
  "parquet_present =
     \<lparr>read_parquet = (\<lambda>path. Inr example_frame),
      read_csv = (\<lambda>path. Inl ''FileNotFoundError'')\<rparr>"

section \<open>Properties of the pandas operations\<close>

lemma bool_index_isin:
  "bool_index df (isin (map f df) vals) = filter (\<lambda>r. f r \<in> set vals) df"
  by (induction df) (simp_all add: bool_index_def isin_def)

lemma set_unique: "set (unique xs) = set xs"
  by (induction xs) auto

lemma distinct_unique: "distinct (unique xs)"
  by (induction xs) (auto simp: set_unique distinct_removeAll)



text \<open>What an indexer that sorts descending is known to be.\<close>

lemma sorts_descending_positions:
  assumes "sorts_descending order counts"
  shows "distinct (order counts)"
    and "set (order counts) = {0..<length counts}"
    and "length (order counts) = length counts"
proof -
  from assms have s: "sort (order counts) = [0..<length counts]"
    by (simp add: sorts_descending_def)
  have "distinct (sort (order counts))"
    by (simp only: s distinct_upt)
  then show "distinct (order counts)"
    by simp
  have "set (sort (order counts)) = {0..<length counts}"
    by (simp only: s set_upt)
  then show "set (order counts) = {0..<length counts}"
    by simp
  have "length (sort (order counts)) = length counts"
    by (simp only: s length_upt)
  then show "length (order counts) = length counts"
    by simp
qed

lemma value_counts_nth:
  "value_counts order col =
     map (\<lambda>i. (unique col ! i, map (count_list col) (unique col) ! i))
       (order (map (count_list col) (unique col)))"
  by (simp add: value_counts_def Let_def)

lemma value_counts_entries:
  assumes "sorts_descending order (map (count_list col) (unique col))"
  shows "value_counts order col =
     map (\<lambda>i. (unique col ! i, count_list col (unique col ! i)))
       (order (map (count_list col) (unique col)))"
  unfolding value_counts_nth
  by (rule map_cong [OF refl]) (simp add: sorts_descending_positions(2) [OF assms])

lemma set_value_counts:
  assumes "sorts_descending order (map (count_list col) (unique col))"
  shows "set (value_counts order col) = (\<lambda>v. (v, count_list col v)) ` set col"
proof -
  have "set (value_counts order col)
      = (\<lambda>i. (unique col ! i, count_list col (unique col ! i))) ` {0..<length (unique col)}"
    by (simp add: value_counts_entries [OF assms] sorts_descending_positions(2) [OF assms])
  also have "\<dots> = (\<lambda>v. (v, count_list col v)) ` (\<lambda>i. unique col ! i) ` {0..<length (unique col)}"
    by (simp add: image_image)
  also have "(\<lambda>i. unique col ! i) ` {0..<length (unique col)} = set (unique col)"
    by (auto simp: set_conv_nth)
  finally show ?thesis
    by (simp add: set_unique)
qed

lemma distinct_value_counts:
  assumes "sorts_descending order (map (count_list col) (unique col))"
  shows "distinct (map fst (value_counts order col))"
proof -
  let ?idx = "order (map (count_list col) (unique col))"
  have "inj_on (nth (unique col)) (set ?idx)"
    by (rule inj_on_nth) (simp_all add: distinct_unique sorts_descending_positions(2) [OF assms])
  with sorts_descending_positions(1) [OF assms]
  have "distinct (map (nth (unique col)) ?idx)"
    by (simp add: distinct_map)
  then show ?thesis
    by (simp add: value_counts_nth comp_def)
qed

lemma length_value_counts:
  assumes "sorts_descending order (map (count_list col) (unique col))"
  shows "length (value_counts order col) = length (unique col)"
  by (simp add: value_counts_nth sorts_descending_positions(3) [OF assms])

lemma value_counts_descending:
  assumes "sorts_descending order (map (count_list col) (unique col))"
  shows "sorted_wrt (\<lambda>p q. snd q \<le> snd p) (value_counts order col)"
  using assms by (simp add: value_counts_nth sorted_wrt_map sorts_descending_def)


lemma treemap_df_filter:
  "treemap_df order df = filter (\<lambda>g. fst g \<in> set (top_locations_list order df)) (groupby_mean df)"
  by (simp add: treemap_df_def Let_def bool_index_isin)

lemma set_groupby_mean:
  "set (groupby_mean df) =
     (\<lambda>k. (fst k, snd k, mean (map cost (group_rows df k)))) ` (\<lambda>r. (location r, rest_type r)) ` set df"
  by (simp add: groupby_mean_def set_unique)

lemma distinct_groupby_keys:
  "distinct (map (\<lambda>g. (fst g, fst (snd g))) (groupby_mean df))"
  by (simp add: groupby_mean_def comp_def distinct_unique)

lemma top_locations_most_frequent:
  assumes "sorts_descending order (location_counts df)"
    and "a \<in> set (top_locations_list order df)"
    and "b \<in> set (map location df)" and "b \<notin> set (top_locations_list order df)"
  shows "count_list (map location df) b \<le> count_list (map location df) a"
proof -
  let ?col = "map location df"
  let ?vc = "value_counts order ?col"
  from assms(1) have H: "sorts_descending order (map (count_list ?col) (unique ?col))"
    by (simp add: location_counts_def)
  have "sorted_wrt (\<lambda>p q. snd q \<le> snd p) (take 10 ?vc @ drop 10 ?vc)"
    by (simp add: value_counts_descending [OF H])
  then have order: "\<forall>p\<in>set (take 10 ?vc). \<forall>q\<in>set (drop 10 ?vc). snd q \<le> snd p"
    unfolding sorted_wrt_append by blast
  from assms(2) obtain p where p: "p \<in> set (take 10 ?vc)" "fst p = a"
    by (auto simp: top_locations_list_def head_def)
  from p(1) have "p \<in> set ?vc"
    by (rule in_set_takeD)
  with p(2) have pa: "snd p = count_list ?col a"
    by (auto simp: set_value_counts [OF H])
  from assms(3) have "(b, count_list ?col b) \<in> set (take 10 ?vc @ drop 10 ?vc)"
    by (simp add: set_value_counts [OF H])
  moreover from assms(4) have "(b, count_list ?col b) \<notin> set (take 10 ?vc)"
    by (force simp: top_locations_list_def head_def)
  ultimately have "(b, count_list ?col b) \<in> set (drop 10 ?vc)"
    by (simp only: set_append Un_iff) blast
  with order p(1) have "count_list ?col b \<le> snd p"
    by fastforce
  with pa show ?thesis by simp
qed

lemma default_selection_options:
  "set (default_selection df) \<subseteq> set (location_options df)"
  by (simp add: default_selection_def location_options_def set_take_subset)

subsection \<open>Correlation\<close>

lemma sum_dev_prod_commute: "sum_dev_prod xs ys = sum_dev_prod ys xs"
proof -
  have "zip ys xs = map (\<lambda>(x, y). (y, x)) (zip xs ys)"
    by (rule zip_commute)
  then show ?thesis
    by (simp add: sum_dev_prod_def Let_def comp_def case_prod_unfold mult.commute)
qed

lemma sum_dev_prod_self_nonneg: "0 \<le> sum_dev_prod xs xs"
proof -
  have "0 \<le> sum_list (map (\<lambda>x. (x - m) * (x - m)) xs)" for m :: rat
    by (rule sum_list_nonneg) auto
  then show ?thesis
    by (simp add: sum_dev_prod_def Let_def zip_same_conv_map comp_def)
qed

lemma pearson_commute: "pearson xs ys = pearson ys xs"
  by (simp add: pearson_def Let_def sum_dev_prod_commute [of xs ys] mult.commute)

lemma pearson_self:
  assumes "sum_dev_prod xs xs \<noteq> 0"
  shows "pearson xs xs = Some 1"
proof -
  from assms sum_dev_prod_self_nonneg [of xs] have pos: "0 < sum_dev_prod xs xs"
    by simp
  then have "sqrt (of_rat (sum_dev_prod xs xs * sum_dev_prod xs xs)) = of_rat (sum_dev_prod xs xs)"
    by (simp add: of_rat_mult)
  with pos show ?thesis
    by (simp add: pearson_def Let_def)
qed

lemma pearson_no_spread:
  assumes "sum_dev_prod xs xs = 0 \<or> sum_dev_prod ys ys = 0"
  shows "pearson xs ys = None"
  using assms by (auto simp: pearson_def Let_def)

lemma variance_none: 
  assumes "variance xs = None"
  shows "sum_dev_prod xs xs = 0"
proof -
  from assms have "length xs < 2"
    by (simp add: variance_def split: if_splits)
  then consider "xs = []" | x where "xs = [x]"
    by (cases xs) (auto simp: length_Suc_conv)
  then show ?thesis
    by cases (simp_all add: sum_dev_prod_def)
qed

lemma variance_zero:
  assumes "variance xs = Some 0"
  shows "sum_dev_prod xs xs = 0"
  using assms by (simp add: variance_def split: if_splits)

lemma variance_nonzero:
  assumes "variance xs = Some v" and "v \<noteq> 0"
  shows "sum_dev_prod xs xs \<noteq> 0"
  using assms by (auto simp: variance_def split: if_splits)

section \<open>Claims about the filter stage\<close>

text \<open>
  C1. For every dataset and every non-empty selection of location values, the filtered
  view is exactly the rows of the dataset whose location is in the selection (in their
  order and multiplicity); for the empty selection it is the whole dataset unchanged,
  so on the non-empty dataset that reaches the filter it is never an empty result.
\<close>

theorem filter_exact_and_fallback:
  "(sel \<noteq> [] \<longrightarrow> df_filtered df sel = filter (\<lambda>r. location r \<in> set sel) df)
   \<and> df_filtered df [] = df
   \<and> (df \<noteq> [] \<longrightarrow> df_filtered df [] \<noteq> [])"
  by (simp add: df_filtered_def bool_index_isin)

theorem filter_exact_and_fallback_witness:
  "df_filtered scenario_df [''A'']
     = [example_row ''A'' ''Cafe'' 4 300, example_row ''A'' ''Bar'' 3 500]
   \<and> df_filtered scenario_df [] = scenario_df
   \<and> df_filtered scenario_df [] \<noteq> []"
proof -
  have "scenario_df \<noteq> []"
    by (simp add: scenario_df_def)
  with filter_exact_and_fallback [of "[''A'']" scenario_df]
  show ?thesis
    by (simp add: scenario_df_def example_row_def)
qed

text \<open>
  C9. The filtered view is an ordered subsequence of the dataset: the surviving rows are
  rows of the dataset, unchanged and in the dataset's order.
\<close>

theorem filter_preserves_order:
  "subseq (df_filtered df sel) df"
  by (simp add: df_filtered_def bool_index_isin)

theorem filter_preserves_order_witness:
  "subseq [example_row ''A'' ''Cafe'' 4 300, example_row ''A'' ''Bar'' 3 500] scenario_df"
proof -
  have "df_filtered scenario_df [''A'']
     = [example_row ''A'' ''Cafe'' 4 300, example_row ''A'' ''Bar'' 3 500]"
    by (simp add: df_filtered_def bool_index_def isin_def scenario_df_def example_row_def)
  with filter_preserves_order [of scenario_df "[''A'']"] show ?thesis
    by simp
qed

text \<open>
  C10. For every non-empty dataset and every non-empty selection drawn from the options
  of the location multiselect (the dataset's own distinct locations), the filtered view
  is non-empty, so the treemap is drawn and the warning of its guard is not shown.
\<close>

theorem selection_from_options_nonempty:
  assumes "df \<noteq> []" and "sel \<noteq> []" and "set sel \<subseteq> set (location_options df)"
  shows "df_filtered df sel \<noteq> []
    \<and> treemap_stage order (df_filtered df sel)
        = Px_treemap (treemap_df order (df_filtered df sel))
    \<and> script order Multivariate_Analysis sel col df
        = Rendered [Px_imshow_corr (corr (numeric_df (df_filtered df sel))),
                    Px_treemap (treemap_df order (df_filtered df sel))]"
proof -
  from assms(2) obtain l where l: "l \<in> set sel"
    by (cases sel) auto
  with assms(3) have "l \<in> set (map location df)"
    by (auto simp: location_options_def set_unique)
  then obtain r where "r \<in> set df" and "location r = l"
    by auto
  with l have "r \<in> set (filter (\<lambda>r. location r \<in> set sel) df)"
    by simp
  then have "filter (\<lambda>r. location r \<in> set sel) df \<noteq> []"
    by (metis empty_iff empty_set)
  with assms(2) have nonempty: "df_filtered df sel \<noteq> []"
    by (simp add: df_filtered_def bool_index_isin)
  then have stage: "treemap_stage order (df_filtered df sel)
      = Px_treemap (treemap_df order (df_filtered df sel))"
    by (simp add: treemap_stage_def)
  from assms(1) stage nonempty show ?thesis
    by (simp add: script_def multivariate_page_def)
qed

theorem selection_from_options_nonempty_witness:
  "df_filtered scenario_df [''B''] \<noteq> []
   \<and> treemap_stage stable_order (df_filtered scenario_df [''B''])
       = Px_treemap (treemap_df stable_order (df_filtered scenario_df [''B'']))
   \<and> script stable_order Multivariate_Analysis [''B''] Rate scenario_df
        = Rendered [Px_imshow_corr (corr (numeric_df (df_filtered scenario_df [''B'']))),
                    Px_treemap (treemap_df stable_order (df_filtered scenario_df [''B'']))]"
proof -
  have a: "scenario_df \<noteq> []"
    by (simp add: scenario_df_def)
  have b: "[''B''] \<noteq> []"
    by simp
  have c: "set [''B''] \<subseteq> set (location_options scenario_df)"
    by (simp add: location_options_def scenario_df_def example_row_def)
  show ?thesis
    by (rule selection_from_options_nonempty [OF a b c])
qed

section \<open>Claims about the loader and the empty dataset\<close>

text \<open>
  C7. When the loaded dataset is empty, the pass shows the error message and stops: its
  only element is the error, and no filter, aggregation or chart element is produced. The
  pass stops in no other case.
\<close>

theorem empty_dataset_stops:
  "script order page sel col [] = Stopped [St_error ''Data could not be loaded. Please check the file.'']
   \<and> ((\<exists>es. script order page sel col df = Stopped es) \<longleftrightarrow> df = [])"
  by (simp add: script_def)

theorem empty_dataset_stops_witness:
  "script stable_order Bivariate_Analysis [''A''] Cost []
     = Stopped [St_error ''Data could not be loaded. Please check the file.'']
   \<and> script stable_order Bivariate_Analysis [] Cost scenario_df
     = Rendered [Px_scatter scenario_df, Px_bar [(''A'', 2), (''B'', 1)], Px_box scenario_df]"
proof -
  have "top_loc stable_order scenario_df = [(''A'', 2), (''B'', 1)]"
    by code_simp
  moreover have "scenario_df \<noteq> []"
    by (simp add: scenario_df_def)
  ultimately have "script stable_order Bivariate_Analysis [] Cost scenario_df
     = Rendered [Px_scatter scenario_df, Px_bar [(''A'', 2), (''B'', 1)], Px_box scenario_df]"
    by (simp add: script_def df_filtered_def bivariate_page_def)
  with empty_dataset_stops [of stable_order Bivariate_Analysis "[''A'']" Cost scenario_df]
  show ?thesis
    by simp
qed

text \<open>
  C8. When the read of the primary file fails, whatever the exception, the fallback file
  is read instead and nothing is reported; when that read fails too, its exception is the
  result of the load; when either read succeeds, the result is the frame read, without
  its columns labelled \<^verbatim>\<open>Unnamed: 0\<close> and with its other columns unchanged.
\<close>

theorem load_data_fallback:
  "(read_parquet fs ''cleaned_df.parquet'' = Inr df
      \<longrightarrow> load_data fs = Inr (filter (\<lambda>c. fst c \<noteq> ''Unnamed: 0'') df))
   \<and> (read_parquet fs ''cleaned_df.parquet'' = Inl e1 \<and> read_csv fs ''cleaned_df.csv'' = Inr df
      \<longrightarrow> load_data fs = Inr (filter (\<lambda>c. fst c \<noteq> ''Unnamed: 0'') df))
   \<and> (read_parquet fs ''cleaned_df.parquet'' = Inl e1 \<and> read_csv fs ''cleaned_df.csv'' = Inl e2
      \<longrightarrow> load_data fs = Inl e2)
   \<and> ''Unnamed: 0'' \<notin> set (columns (filter (\<lambda>c. fst c \<noteq> ''Unnamed: 0'') df))
   \<and> (''Unnamed: 0'' \<notin> set (columns df) \<longrightarrow> filter (\<lambda>c. fst c \<noteq> ''Unnamed: 0'') df = df)"
proof -
  have absent: "filter (\<lambda>c. fst c \<noteq> ''Unnamed: 0'') d = d"
    if "''Unnamed: 0'' \<notin> set (columns d)" for d :: "'b frame"
    using that by (induction d) (auto simp: columns_def)
  have dropped: "(if ''Unnamed: 0'' \<in> set (columns d) then drop_columns [''Unnamed: 0''] d else d)
      = filter (\<lambda>c. fst c \<noteq> ''Unnamed: 0'') d" for d :: "'b frame"
    by (simp add: drop_columns_def absent)
  have "''Unnamed: 0'' \<notin> set (columns (filter (\<lambda>c. fst c \<noteq> ''Unnamed: 0'') df))"
    by (auto simp: columns_def)
  with absent [of df] show ?thesis
    by (simp add: load_data_def dropped)
qed

theorem load_data_fallback_witness:
  "load_data parquet_missing = Inr [(''location'', [7, 8]), (''cost'', [300, 500])]
   \<and> load_data both_missing = Inl ''FileNotFoundError''
   \<and> load_data parquet_present = Inr [(''location'', [7, 8]), (''cost'', [300, 500])]"
proof -
  have "load_data parquet_missing = Inr [(''location'', [7, 8]), (''cost'', [300, 500])]"
    using load_data_fallback [of parquet_missing example_frame "''FileNotFoundError''"]
    by (simp add: parquet_missing_def example_frame_def)
  moreover have "load_data both_missing = Inl ''FileNotFoundError''"
    using load_data_fallback
      [of both_missing example_frame "''ArrowInvalid''" "''FileNotFoundError''"]
    by (simp add: both_missing_def)
  moreover have "load_data parquet_present = Inr [(''location'', [7, 8]), (''cost'', [300, 500])]"
    using load_data_fallback [of parquet_present example_frame]
    by (simp add: parquet_present_def example_frame_def)
  ultimately show ?thesis
    by simp
qed

section \<open>Claims about the aggregation stage\<close>




text \<open>
  C4. Whichever indexer the sort returns, the table of the treemap holds exactly one row
  for each (location, rest_type) pair that has rows in the filtered view and whose
  location is among the top-10 locations, with the mean cost of the rows of the pair (the
  sum of their costs divided by their number). A pair with no row in the view is absent.
  The top-10 locations are the locations of the top-10 count table, computed from the
  view alone: ten distinct locations of the view when it has ten or more, all of them
  otherwise, and no location left out has more rows than one kept. On a non-empty view
  the stage yields this table and no warning.
\<close>

theorem treemap_group_means:
  assumes "sorts_descending order (location_counts df)"
  shows "((l, t, m) \<in> set (treemap_df order df) \<longleftrightarrow>
      l \<in> set (top_locations_list order df)
      \<and> (\<exists>r\<in>set df. location r = l \<and> rest_type r = t)
      \<and> m = Some (sum_list (map cost (filter (\<lambda>r. location r = l \<and> rest_type r = t) df))
                   / of_nat (length (filter (\<lambda>r. location r = l \<and> rest_type r = t) df))))
   \<and> ((\<forall>r\<in>set df. \<not> (location r = l \<and> rest_type r = t)) \<longrightarrow> (l, t, m) \<notin> set (treemap_df order df))
   \<and> distinct (map (\<lambda>g. (fst g, fst (snd g))) (treemap_df order df))
   \<and> top_locations_list order df = map fst (top_loc order df)
   \<and> length (top_locations_list order df) = min 10 (length (unique (map location df)))
   \<and> distinct (top_locations_list order df)
   \<and> set (top_locations_list order df) \<subseteq> set (map location df)
   \<and> (\<forall>a\<in>set (top_locations_list order df).
         \<forall>b\<in>set (map location df) - set (top_locations_list order df).
           count_list (map location df) b \<le> count_list (map location df) a)
   \<and> (df \<noteq> [] \<longrightarrow> treemap_stage order df = Px_treemap (treemap_df order df))"
proof -
  let ?col = "map location df"
  let ?grp = "filter (\<lambda>r. location r = l \<and> rest_type r = t) df"
  from assms have H: "sorts_descending order (map (count_list ?col) (unique ?col))"
    by (simp add: location_counts_def)
  have grp: "group_rows df (l, t) = ?grp"
    by (simp add: group_rows_def)
  have raw: "(l, t, m) \<in> set (treemap_df order df) \<longleftrightarrow>
      l \<in> set (top_locations_list order df)
      \<and> (\<exists>r\<in>set df. location r = l \<and> rest_type r = t)
      \<and> m = mean (map cost ?grp)"
    unfolding treemap_df_filter set_filter set_groupby_mean grp [symmetric]
    by (auto simp: image_iff)
  have mem: "(l, t, m) \<in> set (treemap_df order df) \<longleftrightarrow>
      l \<in> set (top_locations_list order df)
      \<and> (\<exists>r\<in>set df. location r = l \<and> rest_type r = t)
      \<and> m = Some (sum_list (map cost ?grp) / of_nat (length ?grp))"
  proof (cases "\<exists>r\<in>set df. location r = l \<and> rest_type r = t")
    case True
    then have "?grp \<noteq> []"
      by (auto simp: filter_empty_conv)
    then have "mean (map cost ?grp) = Some (sum_list (map cost ?grp) / of_nat (length ?grp))"
      by (simp add: mean_def)
    with raw show ?thesis
      by simp
  next
    case False
    with raw show ?thesis
      by simp
  qed
  from mem have absent: "(\<forall>r\<in>set df. \<not> (location r = l \<and> rest_type r = t))
      \<longrightarrow> (l, t, m) \<notin> set (treemap_df order df)"
    by blast
  have dist: "distinct (map (\<lambda>g. (fst g, fst (snd g))) (treemap_df order df))"
    unfolding treemap_df_filter
    by (rule distinct_map_filter) (rule distinct_groupby_keys)
  have top: "top_locations_list order df = map fst (top_loc order df)"
    by (simp add: top_locations_list_def top_loc_def)
  have len: "length (top_locations_list order df) = min 10 (length (unique ?col))"
    by (simp add: top_locations_list_def head_def length_value_counts [OF H] min.commute)
  have dtop: "distinct (top_locations_list order df)"
    unfolding top_locations_list_def head_def take_map [symmetric]
    by (rule distinct_take) (rule distinct_value_counts [OF H])
  have "set (top_locations_list order df) \<subseteq> fst ` set (value_counts order ?col)"
    unfolding top_locations_list_def head_def
    using set_take_subset [of 10 "value_counts order ?col"] by auto
  then have sub: "set (top_locations_list order df) \<subseteq> set ?col"
    by (auto simp: set_value_counts [OF H])
  have freq: "\<forall>a\<in>set (top_locations_list order df).
         \<forall>b\<in>set ?col - set (top_locations_list order df).
           count_list ?col b \<le> count_list ?col a"
    using top_locations_most_frequent [OF assms] by blast
  have stage: "df \<noteq> [] \<longrightarrow> treemap_stage order df = Px_treemap (treemap_df order df)"
    by (simp add: treemap_stage_def)
  from mem absent dist top len dtop sub freq stage show ?thesis
    by blast
qed

theorem treemap_group_means_witness:
  "treemap_df stable_order (df_filtered scenario_df [''B'']) = [(''B'', ''Cafe'', Some 700)]
   \<and> (''A'', ''Bar'', Some 500) \<notin> set (treemap_df stable_order (df_filtered scenario_df [''B'']))
   \<and> top_locations_list stable_order eleven_df
       = [''a'', ''b'', ''c'', ''d'', ''e'', ''f'', ''g'', ''h'', ''i'', ''j'']
   \<and> (''j'', ''Cafe'', Some 300) \<in> set (treemap_df stable_order eleven_df)
   \<and> (''k'', ''Cafe'', Some 300) \<notin> set (treemap_df stable_order eleven_df)"
proof -
  have f: "df_filtered scenario_df [''B''] = [example_row ''B'' ''Cafe'' 5 700]"
    by (simp add: df_filtered_def bool_index_def isin_def scenario_df_def example_row_def)
  have h1: "sorts_descending stable_order (location_counts [example_row ''B'' ''Cafe'' 5 700])"
    by (simp add: sorts_descending_def stable_order_def location_counts_def example_row_def)
  have v: "treemap_df stable_order [example_row ''B'' ''Cafe'' 5 700] = [(''B'', ''Cafe'', Some 700)]"
    by (simp add: treemap_df_def groupby_mean_def group_rows_def mean_def
        top_locations_list_def head_def value_counts_def stable_order_def bool_index_def
        isin_def example_row_def)
  have none: "\<forall>r\<in>set [example_row ''B'' ''Cafe'' 5 700]. \<not> (location r = ''A'' \<and> rest_type r = ''Bar'')"
    by (simp add: example_row_def)
  have a: "(''A'', ''Bar'', Some 500) \<notin> set (treemap_df stable_order [example_row ''B'' ''Cafe'' 5 700])"
    using treemap_group_means [OF h1, of "''A''" "''Bar''" "Some 500"] none
    by blast
  have h2: "sorts_descending stable_order (location_counts eleven_df)"
    by code_simp
  have top: "top_locations_list stable_order eleven_df
      = [''a'', ''b'', ''c'', ''d'', ''e'', ''f'', ''g'', ''h'', ''i'', ''j'']"
    by code_simp
  have j: "(''j'', ''Cafe'', Some 300) \<in> set (treemap_df stable_order eleven_df)"
    using treemap_group_means [OF h2, of "''j''" "''Cafe''" "Some 300"] top
    by (simp add: eleven_df_def example_row_def)
  have k: "(''k'', ''Cafe'', Some 300) \<notin> set (treemap_df stable_order eleven_df)"
    using treemap_group_means [OF h2, of "''k''" "''Cafe''" "Some 300"] top
    by simp
  from f v a top j k show ?thesis
    by simp
qed

text \<open>
  C5. The correlation matrix of any numeric frame, in particular of the numeric columns
  of a filtered view, is square and symmetric, a NaN cell being equal to its mirror NaN
  cell; and the diagonal cell of every column whose variance is defined and not zero
  is 1. This is the matrix the heatmap of the multivariate page shows.
\<close>

theorem corr_symmetric_unit_diagonal:
  "(\<forall>i<length ndf. \<forall>j<length ndf. corr ndf ! i ! j = corr ndf ! j ! i)
   \<and> (\<forall>i<length ndf. \<forall>v. variance (snd (ndf ! i)) = Some v \<and> v \<noteq> 0 \<longrightarrow> corr ndf ! i ! i = Some 1)
   \<and> length (corr ndf) = length ndf
   \<and> (\<forall>row\<in>set (corr ndf). length row = length ndf)
   \<and> multivariate_page order df ! 0 = Px_imshow_corr (corr (numeric_df df))"
proof -
  have cell: "corr ndf ! i ! j = pearson (snd (ndf ! i)) (snd (ndf ! j))"
    if "i < length ndf" "j < length ndf" for i j
    using that by (simp add: corr_def)
  have sym: "\<forall>i<length ndf. \<forall>j<length ndf. corr ndf ! i ! j = corr ndf ! j ! i"
    by (simp add: cell pearson_commute)
  have diag: "\<forall>i<length ndf. \<forall>v. variance (snd (ndf ! i)) = Some v \<and> v \<noteq> 0 \<longrightarrow> corr ndf ! i ! i = Some 1"
  proof (intro allI impI)
    fix i v
    assume i: "i < length ndf" and v: "variance (snd (ndf ! i)) = Some v \<and> v \<noteq> 0"
    from v have "sum_dev_prod (snd (ndf ! i)) (snd (ndf ! i)) \<noteq> 0"
      by (auto dest: variance_nonzero)
    then have "pearson (snd (ndf ! i)) (snd (ndf ! i)) = Some 1"
      by (rule pearson_self)
    with i show "corr ndf ! i ! i = Some 1"
      by (simp add: cell)
  qed
  have shape: "length (corr ndf) = length ndf \<and> (\<forall>row\<in>set (corr ndf). length row = length ndf)"
    by (auto simp: corr_def)
  have "multivariate_page order df ! 0 = Px_imshow_corr (corr (numeric_df df))"
    by (simp add: multivariate_page_def)
  with sym diag shape show ?thesis
    by blast
qed

theorem corr_symmetric_unit_diagonal_witness:
  "corr (numeric_df scenario_df) ! 0 ! 0 = Some 1
   \<and> corr (numeric_df scenario_df) ! 1 ! 1 = Some 1
   \<and> corr (numeric_df scenario_df) ! 0 ! 1 = corr (numeric_df scenario_df) ! 1 ! 0
   \<and> corr (numeric_df scenario_df) ! 0 ! 1 = Some (1 / 2)"
proof -
  have n: "length (numeric_df scenario_df) = 2"
    by (simp add: numeric_df_def)
  have r: "variance (snd (numeric_df scenario_df ! 0)) = Some 1"
    by (simp add: variance_def sum_dev_prod_def numeric_df_def scenario_df_def example_row_def)
  have c: "variance (snd (numeric_df scenario_df ! 1)) = Some 40000"
    by (simp add: variance_def sum_dev_prod_def numeric_df_def scenario_df_def example_row_def)
  have "sqrt (400 * 400) = 400"
    by (rule real_sqrt_unique) simp_all
  then have s: "sqrt 160000 = 400"
    by simp
  have h: "corr (numeric_df scenario_df) ! 0 ! 1 = Some (1 / 2)"
    by (simp add: corr_def pearson_def sum_dev_prod_def numeric_df_def scenario_df_def
        example_row_def s)
  from corr_symmetric_unit_diagonal [of "numeric_df scenario_df"] n r c h show ?thesis
    by simp
qed

text \<open>
  C6. On a filtered view of a single row every cell of the correlation matrix is NaN,
  and the multivariate page is rendered with that matrix and the treemap; more generally
  the cell of a pair of columns is NaN whenever one of them has an undefined or zero
  variance.
\<close>

theorem corr_single_row_nan:
  "(length df = 1 \<longrightarrow> corr (numeric_df df) = [[None, None], [None, None]])
   \<and> ((variance xs = None \<or> variance xs = Some 0 \<or> variance ys = None \<or> variance ys = Some 0)
        \<longrightarrow> pearson xs ys = None)
   \<and> (length df = 1 \<longrightarrow>
        multivariate_page order df
          = [Px_imshow_corr [[None, None], [None, None]], Px_treemap (treemap_df order df)])"
proof -
  have cells: "(variance xs = None \<or> variance xs = Some 0 \<or> variance ys = None \<or> variance ys = Some 0)
        \<longrightarrow> pearson xs ys = None"
    by (auto intro: pearson_no_spread dest: variance_none variance_zero)
  have single: "corr (numeric_df df) = [[None, None], [None, None]]" if "length df = 1"
  proof -
    from that have "variance (map rate df) = None" and "variance (map cost df) = None"
      by (simp_all add: variance_def)
    then have "sum_dev_prod (map rate df) (map rate df) = 0"
      and "sum_dev_prod (map cost df) (map cost df) = 0"
      by (simp_all add: variance_none)
    then show ?thesis
      by (simp add: corr_def numeric_df_def pearson_no_spread)
  qed
  have page: "multivariate_page order df
          = [Px_imshow_corr [[None, None], [None, None]], Px_treemap (treemap_df order df)]"
    if "length df = 1"
  proof -
    from that have "df \<noteq> []"
      by auto
    with single [OF that] show ?thesis
      by (simp add: multivariate_page_def treemap_stage_def)
  qed
  from cells single page show ?thesis
    by blast
qed

theorem corr_single_row_nan_witness:
  "corr (numeric_df [example_row ''B'' ''Cafe'' 5 700]) = [[None, None], [None, None]]
   \<and> pearson [5] [700] = None
   \<and> multivariate_page stable_order [example_row ''B'' ''Cafe'' 5 700]
       = [Px_imshow_corr [[None, None], [None, None]],
          Px_treemap (treemap_df stable_order [example_row ''B'' ''Cafe'' 5 700])]"
proof -
  have "length [example_row ''B'' ''Cafe'' 5 700] = 1"
    by simp
  moreover have "variance [5] = None"
    by (simp add: variance_def)
  ultimately show ?thesis
    using corr_single_row_nan [of "[example_row ''B'' ''Cafe'' 5 700]" "[5]" "[700]" stable_order]
    by simp
qed

section \<open>Claims about the column classification\<close>

text \<open>
  C2, as stated: the chart choice and the statistics choice are driven by one predicate
  and agree on every column. This fails on the rating column of the three-row example:
  it is numeric with three distinct values, so the chart is a pie (the categorical
  choice) while the statistics shown are the numeric summary.
\<close>

theorem classification_single_predicate_counterexample:
  "chart_choice (get_column Rate scenario_df) = Pie
   \<and> stats_choice (get_column Rate scenario_df) = Describe
   \<and> univariate_page stable_order Rate scenario_df
       = [Px_pie Rate scenario_df, Write_describe (get_column Rate scenario_df)]"
  by (simp add: univariate_page_def chart_choice_def stats_choice_def scenario_df_def example_row_def)

text \<open>
  C2, amended: the chart is a pie exactly when the column's dtype is object or it has
  fewer than 20 distinct values; the statistics are the value counts exactly when the
  dtype is object, whatever the number of distinct values. The two choices agree exactly
  on the columns that are of dtype object or have at least 20 distinct values; and
  whenever the value counts are shown, the chart is a pie.
\<close>

theorem classification_two_predicates:
  "(chart_choice s = Pie \<longleftrightarrow> dtype s = Object \<or> length (unique (cells s)) < 20)
   \<and> (stats_choice s = Value_counts \<longleftrightarrow> dtype s = Object)
   \<and> (((chart_choice s = Pie) = (stats_choice s = Value_counts))
        \<longleftrightarrow> dtype s = Object \<or> 20 \<le> length (unique (cells s)))
   \<and> (stats_choice s = Value_counts \<longrightarrow> chart_choice s = Pie)"
  by (auto simp: chart_choice_def stats_choice_def)

theorem classification_two_predicates_witness:
  "chart_choice (get_column Rest_type scenario_df) = Pie
   \<and> stats_choice (get_column Rest_type scenario_df) = Value_counts
   \<and> chart_choice (get_column Cost scenario_df) = Pie
   \<and> stats_choice (get_column Cost scenario_df) \<noteq> Value_counts"
proof -
  have "dtype (get_column Rest_type scenario_df) = Object"
    by simp
  moreover have "dtype (get_column Cost scenario_df) \<noteq> Object"
    by simp
  moreover have "length (unique (cells (get_column Cost scenario_df))) < 20"
    by (simp add: scenario_df_def example_row_def)
  ultimately show ?thesis
    using classification_two_predicates [of "get_column Rest_type scenario_df"]
      classification_two_predicates [of "get_column Cost scenario_df"]
    by blast
qed

end
